theory Spec2Isabelle
  imports Main
begin

section \<open>JavaScript values\<close>

text \<open>
  The values that flow through the server: what \<^verbatim>\<open>response.json()\<close> can produce
  (null, booleans, numbers, strings, arrays, objects), plus \<^verbatim>\<open>undefined\<close>.
  An object is the list of its own enumerable entries in the order in which
  \<^verbatim>\<open>Object.entries\<close> and \<^verbatim>\<open>JSON.stringify\<close> visit them.
  Numbers are restricted to integers, which \<^verbatim>\<open>String\<close> prints in plain
  decimal (below \<open>10^21\<close>); a fractional double is floating point and is not
  modelled.
\<close>

datatype jsval =
    JUndefined
  | JNull
  | JBool bool
  | JNum int
  | JStr string
  | JArr "jsval list"
  | JObj "(string \<times> jsval) list"

text \<open>The \<^verbatim>\<open>typeof\<close> operator; note \<^verbatim>\<open>typeof null === 'object'\<close>.\<close>

fun typeof :: "jsval \<Rightarrow> string" where
  "typeof JUndefined = ''undefined''"
| "typeof JNull = ''object''"
| "typeof (JBool b) = ''boolean''"
| "typeof (JNum n) = ''number''"
| "typeof (JStr s) = ''string''"
| "typeof (JArr xs) = ''object''"
| "typeof (JObj kvs) = ''object''"

text \<open>Property read \<^verbatim>\<open>o.k\<close> on an object given by its entries: a missing key reads \<^verbatim>\<open>undefined\<close>.\<close>

definition get_prop :: "(string \<times> jsval) list \<Rightarrow> string \<Rightarrow> jsval" where
  "get_prop kvs k = (case map_of kvs k of None \<Rightarrow> JUndefined | Some v \<Rightarrow> v)"

subsection \<open>Number to string\<close>

text \<open>
  The decimal digits of a natural number, most significant first, and
  \<^verbatim>\<open>Number.prototype.toString\<close> on integers. A status code in a template
  literal is printed the same way.
\<close>

definition digit_char :: "nat \<Rightarrow> char" where
  "digit_char d = ''0123456789'' ! (d mod 10)"

function decimal :: "nat \<Rightarrow> string" where
  "decimal n = (if 10 \<le> n then decimal (n div 10) @ [digit_char n] else [digit_char n])"
  by pat_completeness auto
termination
  by (relation "measure id") auto

declare decimal.simps [simp del]

definition Number_toString :: "int \<Rightarrow> string" where
  "Number_toString i = (if 0 \<le> i then decimal (nat i) else CHR ''-'' # decimal (nat (- i)))"

subsection \<open>\<^verbatim>\<open>Array.prototype.join\<close> and \<^verbatim>\<open>String(x)\<close>\<close>

fun join :: "string \<Rightarrow> string list \<Rightarrow> string" where
  "join sep [] = []"
| "join sep [x] = x"
| "join sep (x # y # ys) = x @ sep @ join sep (y # ys)"

text \<open>
  \<^verbatim>\<open>String(x)\<close>. An array prints as its elements joined by commas, where
  \<^verbatim>\<open>null\<close> and \<^verbatim>\<open>undefined\<close> elements print as the empty string; a plain
  object prints as \<^verbatim>\<open>[object Object]\<close>.
\<close>

fun ToString :: "jsval \<Rightarrow> string"
  and ToString_elems :: "jsval list \<Rightarrow> string list" where
  "ToString JUndefined = ''undefined''"
| "ToString JNull = ''null''"
| "ToString (JBool b) = (if b then ''true'' else ''false'')"
| "ToString (JNum n) = Number_toString n"
| "ToString (JStr s) = s"
| "ToString (JArr xs) = join '','' (ToString_elems xs)"
| "ToString (JObj kvs) = ''[object Object]''"
| "ToString_elems [] = []"
| "ToString_elems (x # xs) =
     (if x = JUndefined \<or> x = JNull then [] else ToString x) # ToString_elems xs"

subsection \<open>\<^verbatim>\<open>JSON.stringify\<close>\<close>

definition hex_digit :: "nat \<Rightarrow> char" where
  "hex_digit d = ''0123456789abcdef'' ! (d mod 16)"

text \<open>QuoteJSONString of ECMA-262, on byte strings.\<close>

definition quote_char :: "char \<Rightarrow> string" where
  "quote_char c =
     (if c = CHR 0x22 then [CHR 0x5C, CHR 0x22]
      else if c = CHR 0x5C then [CHR 0x5C, CHR 0x5C]
      else if c = CHR 0x08 then [CHR 0x5C, CHR ''b'']
      else if c = CHR 0x09 then [CHR 0x5C, CHR ''t'']
      else if c = CHR 0x0A then [CHR 0x5C, CHR ''n'']
      else if c = CHR 0x0C then [CHR 0x5C, CHR ''f'']
      else if c = CHR 0x0D then [CHR 0x5C, CHR ''r'']
      else if (of_char c :: nat) < 32
        then [CHR 0x5C, CHR ''u'', CHR ''0'', CHR ''0'',
              hex_digit (of_char c div 16), hex_digit (of_char c mod 16)]
      else [c])"

definition quoteJSON :: "string \<Rightarrow> string" where
  "quoteJSON s = [CHR 0x22] @ concat (map quote_char s) @ [CHR 0x22]"

text \<open>
  SerializeJSONProperty: \<open>None\<close> stands for the result \<^verbatim>\<open>undefined\<close>. An
  \<^verbatim>\<open>undefined\<close> array element is written \<^verbatim>\<open>null\<close>; an object entry whose
  value is \<^verbatim>\<open>undefined\<close> is left out.
\<close>

fun stringify :: "jsval \<Rightarrow> string option"
  and stringify_elems :: "jsval list \<Rightarrow> string list"
  and stringify_props :: "(string \<times> jsval) list \<Rightarrow> string list" where
  "stringify JUndefined = None"
| "stringify JNull = Some ''null''"
| "stringify (JBool b) = Some (if b then ''true'' else ''false'')"
| "stringify (JNum n) = Some (Number_toString n)"
| "stringify (JStr s) = Some (quoteJSON s)"
| "stringify (JArr xs) = Some (''['' @ join '','' (stringify_elems xs) @ '']'')"
| "stringify (JObj kvs) = Some (''{'' @ join '','' (stringify_props kvs) @ ''}'')"
| "stringify_elems [] = []"
| "stringify_elems (x # xs) =
     (case stringify x of None \<Rightarrow> ''null'' | Some s \<Rightarrow> s) # stringify_elems xs"
| "stringify_props [] = []"
| "stringify_props ((k, v) # kvs) =
     (case stringify v of
        None \<Rightarrow> stringify_props kvs
      | Some s \<Rightarrow> (quoteJSON k @ '':'' @ s) # stringify_props kvs)"

definition JSON_stringify :: "jsval \<Rightarrow> jsval" where
  "JSON_stringify v = (case stringify v of None \<Rightarrow> JUndefined | Some s \<Rightarrow> JStr s)"

section \<open>Platform model: \<^verbatim>\<open>URLSearchParams\<close> and \<^verbatim>\<open>fetch\<close>\<close>

text \<open>
  \<^verbatim>\<open>URLSearchParams.prototype.toString\<close> is the
  \<^verbatim>\<open>application/x-www-form-urlencoded\<close> serializer of the URL standard: ASCII
  letters and digits and \<^verbatim>\<open>* - . _\<close> stay, a space becomes \<^verbatim>\<open>+\<close>, every other
  byte becomes \<^verbatim>\<open>%XX\<close> in upper-case hexadecimal; name and value are joined
  by \<^verbatim>\<open>=\<close>, pairs by \<^verbatim>\<open>&\<close>.
\<close>

definition HEX_digit :: "nat \<Rightarrow> char" where
  "HEX_digit d = ''0123456789ABCDEF'' ! (d mod 16)"

definition urlencode_byte :: "char \<Rightarrow> string" where
  "urlencode_byte c =
     (let n = (of_char c :: nat) in
      if (48 \<le> n \<and> n \<le> 57) \<or> (65 \<le> n \<and> n \<le> 90) \<or> (97 \<le> n \<and> n \<le> 122)
         \<or> c = CHR ''*'' \<or> c = CHR ''-'' \<or> c = CHR ''.'' \<or> c = CHR ''_''
      then [c]
      else if c = CHR '' '' then ''+''
      else [CHR ''%'', HEX_digit (n div 16), HEX_digit (n mod 16)])"

definition urlencode :: "string \<Rightarrow> string" where
  "urlencode s = concat (map urlencode_byte s)"

definition urlencoded :: "(string \<times> string) list \<Rightarrow> string" where
  "urlencoded q = join ''&'' (map (\<lambda>(k, v). urlencode k @ ''='' @ urlencode v) q)"

text \<open>
  Thrown values. Everything this program throws or receives as a rejection is an
  \<^verbatim>\<open>Error\<close> object with a string \<^verbatim>\<open>message\<close>: the explicit
  \<^verbatim>\<open>new Error(...)\<close>, the \<^verbatim>\<open>TypeError\<close> of a method call on a value that lacks
  the method and of a failed \<^verbatim>\<open>fetch\<close>, the \<^verbatim>\<open>SyntaxError\<close> of
  \<^verbatim>\<open>response.json()\<close>. A computation that may throw returns \<open>exn + 'a\<close>.
\<close>

datatype exn = Error string | TypeError string | SyntaxError string

fun message :: "exn \<Rightarrow> string" where
  "message (Error m) = m"
| "message (TypeError m) = m"
| "message (SyntaxError m) = m"

text \<open>
  The \<^verbatim>\<open>RequestInit\<close> handed to \<^verbatim>\<open>fetch\<close>, together with the URL. The
  \<^verbatim>\<open>headers\<close> object is its entries in insertion order; \<open>req_body = None\<close> means
  that no \<^verbatim>\<open>body\<close> member was set.
\<close>

record request =
  req_url :: string
  req_method :: string
  req_headers :: "(string \<times> string) list"
  req_body :: "string option"

text \<open>
  A \<^verbatim>\<open>Response\<close>: its status code and what \<^verbatim>\<open>await response.json()\<close>
  does (the parsed value, or the exception of a body that is not JSON).
  \<^verbatim>\<open>response.ok\<close> is, by the Fetch standard, a status from 200 to 299.
\<close>

record response =
  status :: nat
  json :: "exn + jsval"

definition ok :: "response \<Rightarrow> bool" where
  "ok r = (200 \<le> status r \<and> status r \<le> 299)"

text \<open>
  The network is a function from the request to a response or a rejection. An
  asynchronous function is modelled by the list of requests it handed to
  \<^verbatim>\<open>fetch\<close>, in order, and its outcome.
\<close>

type_synonym fetch = "request \<Rightarrow> exn + response"
type_synonym 'a async = "request list \<times> (exn + 'a)"

section \<open>The server (\<^verbatim>\<open>src/index.ts\<close>)\<close>

subsection \<open>\<^verbatim>\<open>formatResponse\<close>\<close>

definition formatResponse :: "jsval \<Rightarrow> jsval" where
  "formatResponse data =
     (let text =
        (if typeof data = ''string'' then data
         else if data = JNull \<or> data = JUndefined then JStr ''No data returned''
         else if typeof data = ''object'' then JSON_stringify data
         else JStr (ToString data))
      in JObj [(''content'', JArr [JObj [(''type'', JStr ''text''), (''text'', text)]])])"

subsection \<open>\<^verbatim>\<open>makeApiRequest\<close>\<close>

text \<open>
  The method call \<^verbatim>\<open>value.toString()\<close>: on \<^verbatim>\<open>null\<close> and \<^verbatim>\<open>undefined\<close> the
  property read itself throws a \<^verbatim>\<open>TypeError\<close> (the message is V8's); on every
  other value of the model it is \<^verbatim>\<open>String(value)\<close>.
\<close>

fun toString :: "jsval \<Rightarrow> exn + string" where
  "toString JNull = Inl (TypeError ''Cannot read properties of null (reading 'toString')'')"
| "toString JUndefined =
     Inl (TypeError ''Cannot read properties of undefined (reading 'toString')'')"
| "toString v = Inr (ToString v)"

text \<open>
  The loop \<^verbatim>\<open>Object.entries(params).forEach(([key, value]) => { if (value !== undefined)
  queryParams.append(key, value.toString()) })\<close>, with the \<^verbatim>\<open>URLSearchParams\<close>
  built so far as accumulator. An exception ends the loop.
\<close>

fun appendParams ::
  "(string \<times> jsval) list \<Rightarrow> (string \<times> string) list \<Rightarrow> exn + (string \<times> string) list" where
  "appendParams [] queryParams = Inr queryParams"
| "appendParams ((key, val) # rest) queryParams =
     (if val \<noteq> JUndefined
      then (case toString val of
              Inl e \<Rightarrow> Inl e
            | Inr s \<Rightarrow> appendParams rest (queryParams @ [(key, s)]))
      else appendParams rest queryParams)"

text \<open>
  The body of \<^verbatim>\<open>makeApiRequest\<close> in its blocks, each under a name of its
  own: the URL (line 41), the headers (lines 43 to 48), the body member of the
  request options (line 52), and what is returned for a response (lines 56 to
  60). A body is an object, given by its entries, or \<^verbatim>\<open>null\<close> (\<open>None\<close>);
  every object is truthy. \<^verbatim>\<open>JSON.stringify\<close> does not throw on the values
  of the model.
\<close>

definition request_url :: "string \<Rightarrow> (string \<times> string) list \<Rightarrow> string" where
  "request_url endpoint queryParams =
     ''https://api.hubapi.com'' @ endpoint
       @ (if urlencoded queryParams \<noteq> [] then ''?'' @ urlencoded queryParams else [])"

definition request_headers ::
  "string \<Rightarrow> (string \<times> jsval) list option \<Rightarrow> (string \<times> string) list" where
  "request_headers apiKey body =
     (let headers = [(''Accept'', ''application/json''),
                     (''Authorization'', ''Bearer '' @ apiKey)]
      in if body \<noteq> None then headers @ [(''Content-Type'', ''application/json'')]
         else headers)"

definition request_body :: "(string \<times> jsval) list option \<Rightarrow> string option" where
  "request_body body = (case body of None \<Rightarrow> None | Some b \<Rightarrow> stringify (JObj b))"

definition response_result :: "response \<Rightarrow> exn + jsval" where
  "response_result response =
     (if \<not> ok response then
        Inr (JStr (''Error fetching data from HubSpot: Status '' @ decimal (status response)))
      else if status response = 204 then
        Inr (JStr (''No data returned: Status '' @ decimal (status response)))
      else json response)"

text \<open>
  \<open>apiKey = None\<close> is an \<^verbatim>\<open>undefined\<close> token; \<^verbatim>\<open>!apiKey\<close> holds for it and
  for the empty string.
\<close>

definition makeApiRequest ::
  "fetch \<Rightarrow> string option \<Rightarrow> string \<Rightarrow> (string \<times> jsval) list \<Rightarrow> string
     \<Rightarrow> (string \<times> jsval) list option \<Rightarrow> jsval async" where
  "makeApiRequest fetch apiKey endpoint params meth body =
     (case apiKey of
        None \<Rightarrow> ([], Inl (Error ''HUBSPOT_ACCESS_TOKEN environment variable is not set''))
      | Some key \<Rightarrow>
          if key = [] then
            ([], Inl (Error ''HUBSPOT_ACCESS_TOKEN environment variable is not set''))
          else
            (case appendParams params [] of
               Inl e \<Rightarrow> ([], Inl e)
             | Inr queryParams \<Rightarrow>
                 let requestOptions =
                       \<lparr>req_url = request_url endpoint queryParams, req_method = meth,
                        req_headers = request_headers key body,
                        req_body = request_body body\<rparr>
                 in (case fetch requestOptions of
                       Inl e \<Rightarrow> ([requestOptions], Inl e)
                     | Inr response \<Rightarrow> ([requestOptions], response_result response))))"

subsection \<open>The two wrappers\<close>

definition makeApiRequestWithErrorHandling ::
  "fetch \<Rightarrow> string option \<Rightarrow> string \<Rightarrow> (string \<times> jsval) list \<Rightarrow> string
     \<Rightarrow> (string \<times> jsval) list option \<Rightarrow> jsval async" where
  "makeApiRequestWithErrorHandling fetch apiKey endpoint params meth body =
     (case makeApiRequest fetch apiKey endpoint params meth body of
        (reqs, Inr data) \<Rightarrow> (reqs, Inr (formatResponse data))
      | (reqs, Inl error) \<Rightarrow>
          (reqs, Inr (formatResponse (JStr (''Error performing request: '' @ message error)))))"

definition handleEndpoint :: "(unit \<Rightarrow> jsval async) \<Rightarrow> jsval async" where
  "handleEndpoint apiCall =
     (case apiCall () of
        (reqs, Inr v) \<Rightarrow> (reqs, Inr v)
      | (reqs, Inl error) \<Rightarrow> (reqs, Inr (formatResponse (JStr (message error)))))"

text \<open>
  \<^verbatim>\<open>getConfig\<close>: \<^verbatim>\<open>config?.HUBSPOT_ACCESS_TOKEN ?? env?.HUBSPOT_ACCESS_TOKEN\<close>, on
  the two token entries (\<open>None\<close> when the entry or its holder is missing).
\<close>

definition getConfig :: "string option \<Rightarrow> string option \<Rightarrow> string option" where
  "getConfig config_token env_token =
     (case config_token of Some t \<Rightarrow> Some t | None \<Rightarrow> env_token)"

subsection \<open>The registered tools\<close>

text \<open>
  Each handler is modelled on the entries of its \<^verbatim>\<open>params\<close> object, with the
  token captured at initialisation as a parameter. \<^verbatim>\<open>add\<close> is modelled on
  numbers, all that its schema \<^verbatim>\<open>{ a: z.number(), b: z.number() }\<close> admits. It
  writes the \<^verbatim>\<open>text\<close> member before the \<^verbatim>\<open>type\<close> member.
\<close>

definition add :: "int \<Rightarrow> int \<Rightarrow> jsval async" where
  "add a b =
     ([], Inr (JObj [(''content'',
                 JArr [JObj [(''text'', JStr (ToString (JNum (a + b)))),
                             (''type'', JStr ''text'')]])]))"

definition crm_create_company ::
  "fetch \<Rightarrow> string option \<Rightarrow> (string \<times> jsval) list \<Rightarrow> jsval async" where
  "crm_create_company fetch hubspotAccessToken params =
     handleEndpoint (\<lambda>_.
       let endpoint = ''/crm/v3/objects/companies''
       in makeApiRequestWithErrorHandling fetch hubspotAccessToken endpoint [] ''POST''
            (Some [(''properties'', get_prop params ''properties''),
                   (''associations'', get_prop params ''associations'')]))"

definition crm_update_company ::
  "fetch \<Rightarrow> string option \<Rightarrow> (string \<times> jsval) list \<Rightarrow> jsval async" where
  "crm_update_company fetch hubspotAccessToken params =
     handleEndpoint (\<lambda>_.
       let endpoint = ''/crm/v3/objects/companies/'' @ ToString (get_prop params ''companyId'')
       in makeApiRequestWithErrorHandling fetch hubspotAccessToken endpoint [] ''PATCH''
            (Some [(''properties'', get_prop params ''properties'')]))"

text \<open>
  The optional call \<^verbatim>\<open>x?.join(",")\<close>: \<^verbatim>\<open>undefined\<close> when \<^verbatim>\<open>x\<close> is
  \<^verbatim>\<open>undefined\<close> or \<^verbatim>\<open>null\<close>, the joined elements when \<^verbatim>\<open>x\<close> is an array, and
  a \<^verbatim>\<open>TypeError\<close> on any other value of the model, none of which has a
  \<^verbatim>\<open>join\<close> method. The first argument is the text of \<^verbatim>\<open>x\<close>, for the message.
\<close>

fun optional_join :: "string \<Rightarrow> jsval \<Rightarrow> exn + jsval" where
  "optional_join x JUndefined = Inr JUndefined"
| "optional_join x JNull = Inr JUndefined"
| "optional_join x (JArr xs) = Inr (JStr (join '','' (ToString_elems xs)))"
| "optional_join x v = Inl (TypeError (x @ ''?.join is not a function''))"

text \<open>
  \<^verbatim>\<open>crm_get_company\<close> passes three arguments, so \<^verbatim>\<open>method\<close> and \<^verbatim>\<open>body\<close>
  take their defaults \<^verbatim>\<open>'GET'\<close> and \<^verbatim>\<open>null\<close>.
\<close>

definition crm_get_company ::
  "fetch \<Rightarrow> string option \<Rightarrow> (string \<times> jsval) list \<Rightarrow> jsval async" where
  "crm_get_company fetch hubspotAccessToken params =
     handleEndpoint (\<lambda>_.
       let endpoint = ''/crm/v3/objects/companies/'' @ ToString (get_prop params ''companyId'')
       in (case optional_join ''params.properties'' (get_prop params ''properties'') of
             Inl e \<Rightarrow> ([], Inl e)
           | Inr properties \<Rightarrow>
               (case optional_join ''params.associations'' (get_prop params ''associations'') of
                  Inl e \<Rightarrow> ([], Inl e)
                | Inr associations \<Rightarrow>
                    makeApiRequestWithErrorHandling fetch hubspotAccessToken endpoint
                      [(''properties'', properties), (''associations'', associations)]
                      ''GET'' None)))"

definition crm_search_companies ::
  "fetch \<Rightarrow> string option \<Rightarrow> (string \<times> jsval) list \<Rightarrow> jsval async" where
  "crm_search_companies fetch hubspotAccessToken params =
     handleEndpoint (\<lambda>_.
       let endpoint = ''/crm/v3/objects/companies/search''
       in makeApiRequestWithErrorHandling fetch hubspotAccessToken endpoint [] ''POST''
            (Some [(''filterGroups'', get_prop params ''filterGroups''),
                   (''properties'', get_prop params ''properties''),
                   (''limit'', get_prop params ''limit''),
                   (''after'', get_prop params ''after''),
                   (''sorts'', get_prop params ''sorts'')]))"

section \<open>The Envelope\<close>

text \<open>
  The spec's Envelope with text \<open>s\<close>, as \<^verbatim>\<open>formatResponse\<close> writes it, and the
  shape \<^verbatim>\<open>{content: [{type: "text", text: s}]}\<close> as a predicate on values: one
  member \<^verbatim>\<open>content\<close>, an array of exactly one object whose members are
  \<^verbatim>\<open>type\<close>, equal to \<^verbatim>\<open>"text"\<close>, and \<^verbatim>\<open>text\<close>, a string, in either order.
\<close>

definition Envelope :: "string \<Rightarrow> jsval" where
  "Envelope s = JObj [(''content'', JArr [JObj [(''type'', JStr ''text''), (''text'', JStr s)]])]"

definition is_text_item :: "jsval \<Rightarrow> bool" where
  "is_text_item v =
     (case v of
        JObj [(k1, v1), (k2, v2)] \<Rightarrow>
          (k1 = ''type'' \<and> v1 = JStr ''text'' \<and> k2 = ''text'' \<and> typeof v2 = ''string'')
          \<or> (k2 = ''type'' \<and> v2 = JStr ''text'' \<and> k1 = ''text'' \<and> typeof v1 = ''string'')
      | _ \<Rightarrow> False)"

definition is_envelope :: "jsval \<Rightarrow> bool" where
  "is_envelope v =
     (case v of
        JObj [(k, JArr [item])] \<Rightarrow> k = ''content'' \<and> is_text_item item
      | _ \<Rightarrow> False)"

text \<open>A transport for examples: every request is answered with the given response.\<close>

definition fetch_always :: "nat \<Rightarrow> exn + jsval \<Rightarrow> fetch" where
  "fetch_always st js rq = Inr \<lparr>status = st, json = js\<rparr>"

section \<open>Argument schemas\<close>

text \<open>
  The schemas that the tools are registered with are \<^verbatim>\<open>zod\<close> terms. Those that
  the search tool uses are constructors of a datatype, so that a schema of the
  source is transcribed as it stands: \<^verbatim>\<open>z.any()\<close>, \<^verbatim>\<open>z.string()\<close>,
  \<^verbatim>\<open>z.number()\<close>, \<^verbatim>\<open>z.number().min(lo).max(hi)\<close>, \<^verbatim>\<open>z.enum([...])\<close>,
  \<^verbatim>\<open>z.array(s)\<close>, \<^verbatim>\<open>z.object({...})\<close> and \<^verbatim>\<open>s.optional()\<close>.
\<close>

datatype schema =
    ZAny
  | ZString
  | ZNumber
  | ZNumberMinMax int int
  | ZEnum "string list"
  | ZArray schema
  | ZObject "(string \<times> schema) list"
  | ZOptional schema

text \<open>
  Structural validation: the first place where a value does not match a schema,
  as the path of member names and array indices that leads to it and a text, or
  \<open>None\<close> when the value matches. An object is checked member by member of the
  schema, a missing member reading \<^verbatim>\<open>undefined\<close>; members that the schema does
  not name are not looked at. The texts are in the style of the library's
  messages; the theorems below rest on the paths and on whether there is an
  issue at all.
\<close>

datatype issue = Issue (issue_path: "string list") (issue_text: string)

fun first_issue :: "issue option list \<Rightarrow> issue option" where
  "first_issue [] = None"
| "first_issue (None # rest) = first_issue rest"
| "first_issue (Some i # rest) = Some i"

definition under :: "string \<Rightarrow> issue option \<Rightarrow> issue option" where
  "under k r = (case r of None \<Rightarrow> None | Some i \<Rightarrow> Some (Issue (k # issue_path i) (issue_text i)))"

fun violation :: "schema \<Rightarrow> jsval \<Rightarrow> issue option" where
  "violation ZAny v = None"
| "violation ZString v =
     (if typeof v = ''string'' then None else Some (Issue [] ''Expected string''))"
| "violation ZNumber v =
     (if typeof v = ''number'' then None else Some (Issue [] ''Expected number''))"
| "violation (ZNumberMinMax lo hi) v =
     (case v of
        JNum n \<Rightarrow>
          if n < lo then
            Some (Issue [] (''Number must be greater than or equal to '' @ Number_toString lo))
          else if hi < n then
            Some (Issue [] (''Number must be less than or equal to '' @ Number_toString hi))
          else None
      | _ \<Rightarrow> Some (Issue [] ''Expected number''))"
| "violation (ZEnum options) v =
     (case v of
        JStr s \<Rightarrow>
          if s \<in> set options then None
          else Some (Issue [] (''Invalid enum value. Expected one of '' @ join '', '' options
                               @ ''; received '' @ s))
      | _ \<Rightarrow> Some (Issue [] (''Expected one of '' @ join '', '' options)))"
| "violation (ZArray s) v =
     (case v of
        JArr xs \<Rightarrow>
          first_issue (map (\<lambda>(i, x). under (decimal i) (violation s x)) (enumerate 0 xs))
      | _ \<Rightarrow> Some (Issue [] ''Expected array''))"
| "violation (ZObject shape) v =
     (case v of
        JObj kvs \<Rightarrow>
          first_issue (map (\<lambda>(k, s). under k (violation s (get_prop kvs k))) shape)
      | _ \<Rightarrow> Some (Issue [] ''Expected object''))"
| "violation (ZOptional s) v = (if v = JUndefined then None else violation s v)"

definition issue_message :: "issue \<Rightarrow> string" where
  "issue_message i = join ''.'' (issue_path i) @ '': '' @ issue_text i"

text \<open>The schema of \<^verbatim>\<open>crm_search_companies\<close> (lines 195 to 232).\<close>

definition operators :: "string list" where
  "operators = [''EQ'', ''NEQ'', ''LT'', ''LTE'', ''GT'', ''GTE'', ''BETWEEN'', ''IN'', ''NOT_IN'',
     ''HAS_PROPERTY'', ''NOT_HAS_PROPERTY'', ''CONTAINS_TOKEN'', ''NOT_CONTAINS_TOKEN'']"

definition search_shape :: "(string \<times> schema) list" where
  "search_shape =
     [(''filterGroups'',
         ZArray (ZObject
           [(''filters'',
               ZArray (ZObject
                 [(''propertyName'', ZString),
                  (''operator'', ZEnum operators),
                  (''value'', ZAny)]))])),
      (''properties'', ZOptional (ZArray ZString)),
      (''limit'', ZOptional (ZNumberMinMax 1 100)),
      (''after'', ZOptional ZString),
      (''sorts'',
         ZOptional (ZArray (ZObject
           [(''propertyName'', ZString),
            (''direction'', ZEnum [''ASCENDING'', ''DESCENDING''])])))]"

text \<open>The entries of an object and the elements of an array, empty on any other value.\<close>

fun entries :: "jsval \<Rightarrow> (string \<times> jsval) list" where
  "entries (JObj kvs) = kvs"
| "entries v = []"

fun elements :: "jsval \<Rightarrow> jsval list" where
  "elements (JArr xs) = xs"
| "elements v = []"

text \<open>
  Modelled from the spec: the dispatch of a tool call by the MCP framework. The
  source registers each tool with \<^verbatim>\<open>this.server.tool(name, description, schema,
  handler)\<close>; the framework that validates the arguments and then runs the handler
  is not part of the source. The spec (4.4) has each schema
  ``rejecting malformed calls before any network activity -- the validator's own
  error becomes the tool's failure response'', and (7) has a validation error
  ``rejected by the schema layer prior to handler execution'' and ended, like every
  failure, as ``a successful MCP response whose text happens to describe
  failure''. So: arguments that do not match the schema give the Envelope of the
  validator's message and the handler does not run; arguments that match are
  handed to the handler as they came.
\<close>

definition call_tool ::
  "(string \<times> schema) list \<Rightarrow> ((string \<times> jsval) list \<Rightarrow> jsval async) \<Rightarrow> jsval \<Rightarrow> jsval async" where
  "call_tool shape handler args =
     (case violation (ZObject shape) args of
        Some issue \<Rightarrow> ([], Inr (formatResponse (JStr (issue_message issue))))
      | None \<Rightarrow> handler (entries args))"

text \<open>
  The \<^verbatim>\<open>operator\<close> members of all filters of all filter groups of a search
  call, for stating what validation enforces.
\<close>

definition filter_operators :: "(string \<times> jsval) list \<Rightarrow> jsval list" where
  "filter_operators params =
     concat (map (\<lambda>g. map (\<lambda>f. get_prop (entries f) ''operator'')
                          (elements (get_prop (entries g) ''filters'')))
                 (elements (get_prop params ''filterGroups'')))"

text \<open>
  An optional argument of schema \<^verbatim>\<open>z.array(z.string()).optional()\<close> as a value:
  absent, or an array of strings; and what \<^verbatim>\<open>?.join(",")\<close> makes of it.
\<close>

definition optional_strings :: "string list option \<Rightarrow> jsval" where
  "optional_strings xs = (case xs of None \<Rightarrow> JUndefined | Some ys \<Rightarrow> JArr (map JStr ys))"

definition joined :: "string list option \<Rightarrow> jsval" where
  "joined xs = (case xs of None \<Rightarrow> JUndefined | Some ys \<Rightarrow> JStr (join '','' ys))"

definition fetch_fails :: "exn \<Rightarrow> fetch" where
  "fetch_fails ex rq = Inl ex"

section \<open>Lemmas\<close>

lemmas makeApiRequest_eval =
  makeApiRequest_def request_url_def request_headers_def request_body_def response_result_def
  ok_def urlencoded_def Let_def

lemma typeof_string_iff: "typeof v = ''string'' \<longleftrightarrow> (\<exists>s. v = JStr s)"
  by (cases v) simp_all

lemma typeof_object_iff:
  "typeof v = ''object'' \<longleftrightarrow> v = JNull \<or> (\<exists>xs. v = JArr xs) \<or> (\<exists>kvs. v = JObj kvs)"
  by (cases v) simp_all

lemma is_envelope_Envelope: "is_envelope (Envelope s)"
  by (simp add: is_envelope_def is_text_item_def Envelope_def)

lemma formatResponse_JStr: "formatResponse (JStr s) = Envelope s"
  by (simp add: formatResponse_def Envelope_def)

lemma formatResponse_Envelope: "\<exists>s. formatResponse v = Envelope s"
  by (cases v) (simp_all add: formatResponse_def Envelope_def JSON_stringify_def)

lemma makeApiRequestWithErrorHandling_Envelope:
  "\<exists>reqs s. makeApiRequestWithErrorHandling fetch k e ps m b = (reqs, Inr (Envelope s))"
proof (cases "makeApiRequest fetch k e ps m b")
  case (Pair reqs res)
  then show ?thesis
    using formatResponse_Envelope
    by (cases res) (auto simp: makeApiRequestWithErrorHandling_def)
qed

lemma handleEndpoint_Envelope:
  assumes "\<And>reqs v. apiCall () = (reqs, Inr v) \<Longrightarrow> \<exists>s. v = Envelope s"
  shows "\<exists>reqs s. handleEndpoint apiCall = (reqs, Inr (Envelope s))"
proof (cases "apiCall ()")
  case (Pair reqs res)
  show ?thesis
  proof (cases res)
    case (Inl e)
    with Pair show ?thesis
      by (auto simp: handleEndpoint_def formatResponse_JStr)
  next
    case (Inr v)
    with Pair assms show ?thesis
      by (auto simp: handleEndpoint_def)
  qed
qed

lemma decimal_204: "decimal 204 = ''204''"
  by (simp add: decimal.simps digit_char_def)

lemma decimal_404: "decimal 404 = ''404''"
  by (simp add: decimal.simps digit_char_def)

lemma makeApiRequest_no_token:
  "makeApiRequest fetch None e ps m b =
     ([], Inl (Error ''HUBSPOT_ACCESS_TOKEN environment variable is not set''))"
  "makeApiRequest fetch (Some []) e ps m b =
     ([], Inl (Error ''HUBSPOT_ACCESS_TOKEN environment variable is not set''))"
  by (simp_all add: makeApiRequest_def)

lemma handleEndpoint_Inr:
  "apiCall () = (reqs, Inr v) \<Longrightarrow> handleEndpoint apiCall = (reqs, Inr v)"
  by (simp add: handleEndpoint_def)

lemma handleEndpoint_wrapped:
  "handleEndpoint (\<lambda>_. makeApiRequestWithErrorHandling fetch k e ps m b)
     = makeApiRequestWithErrorHandling fetch k e ps m b"
  using makeApiRequestWithErrorHandling_Envelope [of fetch k e ps m b]
  by (auto simp: handleEndpoint_def)

lemma makeApiRequest_issued:
  assumes "rq \<in> set (fst (makeApiRequest fetch k e ps m b))"
  shows "\<exists>key q. k = Some key \<and> key \<noteq> [] \<and> appendParams ps [] = Inr q
     \<and> rq = \<lparr>req_url = request_url e q, req_method = m,
              req_headers = request_headers key b, req_body = request_body b\<rparr>
     \<and> makeApiRequest fetch k e ps m b =
         ([rq], case fetch rq of Inl ex \<Rightarrow> Inl ex | Inr r \<Rightarrow> response_result r)"
proof (cases k)
  case None
  with assms show ?thesis by (simp add: makeApiRequest_def)
next
  case (Some key)
  show ?thesis
  proof (cases "key = []")
    case True
    with assms Some show ?thesis by (simp add: makeApiRequest_def)
  next
    case False
    show ?thesis
    proof (cases "appendParams ps []")
      case (Inl ex)
      with assms Some False show ?thesis by (simp add: makeApiRequest_def)
    next
      case (Inr q)
      let ?rq = "\<lparr>req_url = request_url e q, req_method = m,
              req_headers = request_headers key b, req_body = request_body b\<rparr>"
      have eq: "makeApiRequest fetch k e ps m b =
         ([?rq], case fetch ?rq of Inl ex \<Rightarrow> Inl ex | Inr r \<Rightarrow> response_result r)"
        using Some False Inr by (simp add: makeApiRequest_def Let_def split: sum.splits)
      with assms have "rq = ?rq" by simp
      with eq Some False Inr show ?thesis by simp
    qed
  qed
qed

lemma request_headers_map_of:
  "map_of (request_headers key b) ''Accept'' = Some ''application/json''"
  "map_of (request_headers key b) ''Authorization'' = Some (''Bearer '' @ key)"
  "map_of (request_headers key b) ''Content-Type''
     = (case b of None \<Rightarrow> None | Some ob \<Rightarrow> Some ''application/json'')"
  by (cases b; simp add: request_headers_def)+

lemma request_body_None: "(request_body b = None) = (b = None)"
  by (cases b) (simp_all add: request_body_def)

lemma example_request:
  "fst (makeApiRequest (fetch_always st js) (Some ''t'') ''/crm/v3/objects/companies/1'' []
          ''GET'' None)
     = [\<lparr>req_url = ''https://api.hubapi.com/crm/v3/objects/companies/1'', req_method = ''GET'',
          req_headers = [(''Accept'', ''application/json''), (''Authorization'', ''Bearer t'')],
          req_body = None\<rparr>]"
  by (simp add: makeApiRequest_def request_url_def request_headers_def request_body_def
      urlencoded_def fetch_always_def Let_def)

lemma example_request_body:
  "fst (makeApiRequest (fetch_always st js) (Some ''t'') ''/crm/v3/objects/companies/1'' []
          ''PATCH'' (Some [(''properties'', JObj [(''name'', JStr ''Acme'')])]))
     = [\<lparr>req_url = ''https://api.hubapi.com/crm/v3/objects/companies/1'',
          req_method = ''PATCH'',
          req_headers = [(''Accept'', ''application/json''), (''Authorization'', ''Bearer t''),
                         (''Content-Type'', ''application/json'')],
          req_body = Some ''{\"properties\":{\"name\":\"Acme\"}}''\<rparr>]"
  by (simp add: makeApiRequest_def request_url_def request_headers_def request_body_def
      urlencoded_def fetch_always_def Let_def quoteJSON_def quote_char_def)

lemma crm_create_company_Envelope:
  "\<exists>reqs s. crm_create_company fetch k params = (reqs, Inr (Envelope s))"
  unfolding crm_create_company_def Let_def handleEndpoint_wrapped
  by (rule makeApiRequestWithErrorHandling_Envelope)

lemma crm_update_company_Envelope:
  "\<exists>reqs s. crm_update_company fetch k params = (reqs, Inr (Envelope s))"
  unfolding crm_update_company_def Let_def handleEndpoint_wrapped
  by (rule makeApiRequestWithErrorHandling_Envelope)

lemma crm_search_companies_Envelope:
  "\<exists>reqs s. crm_search_companies fetch k params = (reqs, Inr (Envelope s))"
  unfolding crm_search_companies_def Let_def handleEndpoint_wrapped
  by (rule makeApiRequestWithErrorHandling_Envelope)

lemma crm_get_company_Envelope:
  "\<exists>reqs s. crm_get_company fetch k params = (reqs, Inr (Envelope s))"
  unfolding crm_get_company_def
proof (rule handleEndpoint_Envelope)
  fix reqs v
  assume call: "(let endpoint = ''/crm/v3/objects/companies/'' @ ToString (get_prop params ''companyId'')
       in (case optional_join ''params.properties'' (get_prop params ''properties'') of
             Inl e \<Rightarrow> ([], Inl e)
           | Inr properties \<Rightarrow>
               (case optional_join ''params.associations'' (get_prop params ''associations'') of
                  Inl e \<Rightarrow> ([], Inl e)
                | Inr associations \<Rightarrow>
                    makeApiRequestWithErrorHandling fetch k endpoint
                      [(''properties'', properties), (''associations'', associations)]
                      ''GET'' None))) = (reqs, Inr v)"
  show "\<exists>s. v = Envelope s"
  proof (cases "optional_join ''params.properties'' (get_prop params ''properties'')")
    case Inl
    with call show ?thesis by simp
  next
    case (Inr p)
    show ?thesis
    proof (cases "optional_join ''params.associations'' (get_prop params ''associations'')")
      case Inl
      with call Inr show ?thesis by simp
    next
      case (Inr a)
      with call \<open>optional_join ''params.properties'' (get_prop params ''properties'') = Inr p\<close>
      show ?thesis
        using makeApiRequestWithErrorHandling_Envelope [of fetch k
            "''/crm/v3/objects/companies/'' @ ToString (get_prop params ''companyId'')"
            "[(''properties'', p), (''associations'', a)]" "''GET''" None]
        by (auto simp: Let_def)
    qed
  qed
qed

lemma ToString_elems_JStr: "ToString_elems (map JStr xs) = xs"
  by (induction xs) simp_all

lemma join_Cons_nonempty: "x \<noteq> [] \<Longrightarrow> join sep (x # xs) \<noteq> []"
  by (cases xs) simp_all

lemma urlencoded_Nil_iff: "urlencoded q = [] \<longleftrightarrow> q = []"
proof (cases q)
  case Nil
  then show ?thesis by (simp add: urlencoded_def)
next
  case (Cons p ps)
  obtain k v where "p = (k, v)" by (cases p)
  with Cons show ?thesis
    using join_Cons_nonempty [of "urlencode k @ ''='' @ urlencode v" "''&''"]
    by (simp add: urlencoded_def)
qed


lemma optional_join_not_null: "optional_join x v = Inr r \<Longrightarrow> r \<noteq> JNull"
  by (cases v) auto

lemma urlencode_example: "urlencode ''name,domain'' = ''name%2Cdomain''"
  by (simp add: urlencode_def urlencode_byte_def HEX_digit_def)

lemma optional_join_optional_strings:
  "optional_join x (optional_strings xs) = Inr (joined xs)"
  by (cases xs) (simp_all add: optional_strings_def joined_def ToString_elems_JStr)

lemma fst_makeApiRequestWithErrorHandling:
  "fst (makeApiRequestWithErrorHandling fetch k e ps m b) = fst (makeApiRequest fetch k e ps m b)"
  by (cases "makeApiRequest fetch k e ps m b")
     (auto simp: makeApiRequestWithErrorHandling_def split: sum.splits)

lemma fst_makeApiRequest:
  assumes "key \<noteq> []" and "appendParams ps [] = Inr q"
  shows "fst (makeApiRequest fetch (Some key) e ps m b)
     = [\<lparr>req_url = request_url e q, req_method = m,
         req_headers = request_headers key b, req_body = request_body b\<rparr>]"
  using assms by (simp add: makeApiRequest_def Let_def split: sum.splits)

lemma crm_get_company_validated:
  assumes "get_prop params ''companyId'' = JStr companyId"
    and "get_prop params ''properties'' = optional_strings properties"
    and "get_prop params ''associations'' = optional_strings associations"
  shows "crm_get_company fetch k params
     = makeApiRequestWithErrorHandling fetch k (''/crm/v3/objects/companies/'' @ companyId)
         [(''properties'', joined properties), (''associations'', joined associations)]
         ''GET'' None"
  unfolding crm_get_company_def Let_def assms optional_join_optional_strings
  by (simp add: handleEndpoint_wrapped)

lemma appendParams_joined:
  "appendParams [(''properties'', joined properties), (''associations'', joined associations)] []
     = Inr ((case properties of None \<Rightarrow> [] | Some ps \<Rightarrow> [(''properties'', join '','' ps)])
            @ (case associations of None \<Rightarrow> [] | Some as \<Rightarrow> [(''associations'', join '','' as)]))"
  by (cases properties; cases associations) (simp_all add: joined_def)

lemma first_issue_None: "first_issue rs = None \<longleftrightarrow> (\<forall>r \<in> set rs. r = None)"
  by (induction rs rule: first_issue.induct) simp_all

lemma under_None: "under k r = None \<longleftrightarrow> r = None"
  by (cases r) (simp_all add: under_def)

lemma violation_ZArray_None:
  "violation (ZArray s) v = None \<longleftrightarrow> (\<exists>xs. v = JArr xs \<and> (\<forall>x \<in> set xs. violation s x = None))"
proof (cases v)
  case (JArr xs)
  have "snd ` set (enumerate 0 xs) = set xs"
    using map_snd_enumerate [of 0 xs] by (metis set_map)
  then have "(\<forall>x \<in> set xs. violation s x = None)
      \<longleftrightarrow> (\<forall>x \<in> snd ` set (enumerate 0 xs). violation s x = None)"
    by (simp only:)
  then
  have "(\<forall>p \<in> set (enumerate 0 xs). violation s (snd p) = None)
      \<longleftrightarrow> (\<forall>x \<in> set xs. violation s x = None)"
    by (simp only: ball_simps)
  then show ?thesis
    using JArr by (simp add: first_issue_None under_None split_def)
qed simp_all

lemma violation_ZObject_None:
  "violation (ZObject shape) v = None
     \<longleftrightarrow> (\<exists>kvs. v = JObj kvs \<and> (\<forall>(k, s) \<in> set shape. violation s (get_prop kvs k) = None))"
  by (cases v) (auto simp: first_issue_None under_None)


lemma violation_ZObject_entries:
  "violation (ZObject shape) v = None \<Longrightarrow> v = JObj (entries v)"
  by (cases v) simp_all

lemma search_shape_fields:
  assumes "violation (ZObject search_shape) (JObj params) = None"
  shows "violation (ZArray (ZObject
           [(''filters'',
               ZArray (ZObject
                 [(''propertyName'', ZString),
                  (''operator'', ZEnum operators),
                  (''value'', ZAny)]))])) (get_prop params ''filterGroups'') = None"
    and "violation (ZOptional (ZNumberMinMax 1 100)) (get_prop params ''limit'') = None"
  using assms unfolding violation_ZObject_None search_shape_def by simp_all

lemma filter_operators_valid:
  assumes "violation (ZObject search_shape) (JObj params) = None"
  shows "set (filter_operators params) \<subseteq> JStr ` set operators"
proof
  fix op assume "op \<in> set (filter_operators params)"
  then obtain g f where g: "g \<in> set (elements (get_prop params ''filterGroups''))"
    and f: "f \<in> set (elements (get_prop (entries g) ''filters''))"
    and op: "op = get_prop (entries f) ''operator''"
    by (auto simp: filter_operators_def)
  from search_shape_fields(1) [OF assms] g
  have "violation (ZObject
           [(''filters'',
               ZArray (ZObject
                 [(''propertyName'', ZString),
                  (''operator'', ZEnum operators),
                  (''value'', ZAny)]))]) g = None"
    unfolding violation_ZArray_None by auto
  then obtain gk where gk: "g = JObj gk"
    and "violation (ZArray (ZObject
                 [(''propertyName'', ZString),
                  (''operator'', ZEnum operators),
                  (''value'', ZAny)])) (get_prop gk ''filters'') = None"
    unfolding violation_ZObject_None by auto
  with f have "violation (ZObject
                 [(''propertyName'', ZString),
                  (''operator'', ZEnum operators),
                  (''value'', ZAny)]) f = None"
    unfolding violation_ZArray_None by auto
  then obtain fk where "f = JObj fk"
    and "violation (ZEnum operators) (get_prop fk ''operator'') = None"
    unfolding violation_ZObject_None by auto
  with op show "op \<in> JStr ` set operators"
    by (cases "get_prop fk ''operator''") (auto split: if_splits)
qed

lemma limit_valid:
  assumes "violation (ZObject search_shape) (JObj params) = None"
  shows "get_prop params ''limit'' = JUndefined
     \<or> (\<exists>n. get_prop params ''limit'' = JNum n \<and> 1 \<le> n \<and> n \<le> 100)"
  using search_shape_fields(2) [OF assms]
  by (cases "get_prop params ''limit''") (auto split: if_splits)

lemma crm_search_companies_request:
  assumes "key \<noteq> []"
  shows "fst (crm_search_companies fetch (Some key) params)
     = [\<lparr>req_url = ''https://api.hubapi.com/crm/v3/objects/companies/search'',
         req_method = ''POST'',
         req_headers = [(''Accept'', ''application/json''),
                        (''Authorization'', ''Bearer '' @ key),
                        (''Content-Type'', ''application/json'')],
         req_body = stringify (JObj
           [(''filterGroups'', get_prop params ''filterGroups''),
            (''properties'', get_prop params ''properties''),
            (''limit'', get_prop params ''limit''),
            (''after'', get_prop params ''after''),
            (''sorts'', get_prop params ''sorts'')])\<rparr>]"
proof -
  have "appendParams [] [] = Inr []" by simp
  from fst_makeApiRequest [OF assms this]
  show ?thesis
    unfolding crm_search_companies_def Let_def handleEndpoint_wrapped
      fst_makeApiRequestWithErrorHandling
    by (simp add: request_url_def request_headers_def request_body_def urlencoded_def)
qed

lemma call_tool_rejects:
  "violation (ZObject shape) args = Some issue \<Longrightarrow>
   call_tool shape handler args = ([], Inr (Envelope (issue_message issue)))"
  by (simp add: call_tool_def formatResponse_JStr)

lemma call_tool_accepts:
  "violation (ZObject shape) args = None \<Longrightarrow> call_tool shape handler args = handler (entries args)"
  by (simp add: call_tool_def)

section \<open>The Response Formatter\<close>

text \<open>
  C3. For every input, \<^verbatim>\<open>formatResponse\<close> returns an Envelope (it has no failing
  branch), and the Envelope's text is: the input itself when the input is a
  string; the literal \<^verbatim>\<open>No data returned\<close> when it is \<^verbatim>\<open>null\<close> or
  \<^verbatim>\<open>undefined\<close>; its JSON serialization when it is an object or an array; its
  string coercion for every other type (booleans and numbers).
\<close>

theorem formatResponse_text:
  "(\<exists>s. formatResponse data = Envelope s)
   \<and> (\<forall>s. data = JStr s \<longrightarrow> formatResponse data = Envelope s)
   \<and> (data = JNull \<or> data = JUndefined \<longrightarrow> formatResponse data = Envelope ''No data returned'')
   \<and> (typeof data = ''object'' \<and> data \<noteq> JNull \<longrightarrow>
        (\<exists>j. stringify data = Some j \<and> formatResponse data = Envelope j))
   \<and> (typeof data \<noteq> ''string'' \<and> typeof data \<noteq> ''object'' \<and> data \<noteq> JUndefined \<longrightarrow>
        formatResponse data = Envelope (ToString data))"
proof (intro conjI allI impI)
  show "\<exists>s. formatResponse data = Envelope s"
    by (rule formatResponse_Envelope)
next
  fix s assume "data = JStr s"
  then show "formatResponse data = Envelope s"
    by (simp add: formatResponse_JStr)
next
  assume "data = JNull \<or> data = JUndefined"
  then show "formatResponse data = Envelope ''No data returned''"
    by (auto simp: formatResponse_def Envelope_def)
next
  assume "typeof data = ''object'' \<and> data \<noteq> JNull"
  then show "\<exists>j. stringify data = Some j \<and> formatResponse data = Envelope j"
    by (cases data) (simp_all add: formatResponse_def Envelope_def JSON_stringify_def)
next
  assume "typeof data \<noteq> ''string'' \<and> typeof data \<noteq> ''object'' \<and> data \<noteq> JUndefined"
  then show "formatResponse data = Envelope (ToString data)"
    by (cases data) (simp_all add: formatResponse_def Envelope_def)
qed

theorem formatResponse_text_witness:
  "formatResponse (JStr ''hello'') = Envelope ''hello''
   \<and> formatResponse JNull = Envelope ''No data returned''
   \<and> formatResponse JUndefined = Envelope ''No data returned''
   \<and> formatResponse (JObj [(''id'', JNum 7)]) = Envelope ''{\"id\":7}''
   \<and> formatResponse (JArr [JNum 1, JNull]) = Envelope ''[1,null]''
   \<and> formatResponse (JBool True) = Envelope ''true''
   \<and> formatResponse (JNum 42) = Envelope ''42''"
  using formatResponse_text [of "JStr ''hello''"] formatResponse_text [of JNull]
    formatResponse_text [of JUndefined] formatResponse_text [of "JObj [(''id'', JNum 7)]"]
    formatResponse_text [of "JArr [JNum 1, JNull]"]
    formatResponse_text [of "JBool True"] formatResponse_text [of "JNum 42"]
  by (simp add: quoteJSON_def quote_char_def Number_toString_def decimal.simps digit_char_def)

section \<open>The error-handling wrappers\<close>

text \<open>
  C7, as the claim states it, fails: when the API Client raises, the wrapper does
  not format the exception's message string itself. With no token the client
  raises \<^verbatim>\<open>HUBSPOT_ACCESS_TOKEN environment variable is not set\<close>, and the
  Envelope's text is that message behind the prefix
  \<^verbatim>\<open>Error performing request: \<close>.
\<close>

theorem wrapper_message_counterexample:
  "makeApiRequest (fetch_always 200 (Inr JNull)) None ''/x'' [] ''GET'' None
     = ([], Inl (Error ''HUBSPOT_ACCESS_TOKEN environment variable is not set''))
   \<and> makeApiRequestWithErrorHandling (fetch_always 200 (Inr JNull)) None ''/x'' [] ''GET'' None
     \<noteq> ([], Inr (formatResponse
           (JStr (message (Error ''HUBSPOT_ACCESS_TOKEN environment variable is not set'')))))
   \<and> makeApiRequestWithErrorHandling (fetch_always 200 (Inr JNull)) None ''/x'' [] ''GET'' None
     = ([], Inr (Envelope
          ''Error performing request: HUBSPOT_ACCESS_TOKEN environment variable is not set''))"
  by (simp add: makeApiRequest_no_token makeApiRequestWithErrorHandling_def formatResponse_JStr
      Envelope_def)

text \<open>
  C7, amended. When \<^verbatim>\<open>makeApiRequest\<close> raises, the wrapper
  \<^verbatim>\<open>makeApiRequestWithErrorHandling\<close> returns \<^verbatim>\<open>formatResponse\<close> applied to
  the string \<^verbatim>\<open>Error performing request: \<close> followed by the exception's
  message; when it does not raise, the wrapper returns \<^verbatim>\<open>formatResponse\<close>
  applied to its result; in both cases the wrapper returns an Envelope and does
  not raise.
\<close>

theorem wrapper_catches:
  "(makeApiRequest fetch k e ps m b = (reqs, Inl err) \<longrightarrow>
      makeApiRequestWithErrorHandling fetch k e ps m b
        = (reqs, Inr (formatResponse (JStr (''Error performing request: '' @ message err)))))
   \<and> (makeApiRequest fetch k e ps m b = (reqs, Inr data) \<longrightarrow>
      makeApiRequestWithErrorHandling fetch k e ps m b = (reqs, Inr (formatResponse data)))
   \<and> (\<exists>reqs' s. makeApiRequestWithErrorHandling fetch k e ps m b = (reqs', Inr (Envelope s)))"
  using makeApiRequestWithErrorHandling_Envelope [of fetch k e ps m b]
  by (simp add: makeApiRequestWithErrorHandling_def)

theorem wrapper_catches_witness:
  "makeApiRequest (fetch_always 200 (Inl (SyntaxError ''Unexpected end of JSON input'')))
      (Some ''t'') ''/x'' [] ''GET'' None
     = ([\<lparr>req_url = ''https://api.hubapi.com/x'', req_method = ''GET'',
          req_headers = [(''Accept'', ''application/json''), (''Authorization'', ''Bearer t'')],
          req_body = None\<rparr>],
        Inl (SyntaxError ''Unexpected end of JSON input''))
   \<and> makeApiRequestWithErrorHandling
        (fetch_always 200 (Inl (SyntaxError ''Unexpected end of JSON input'')))
        (Some ''t'') ''/x'' [] ''GET'' None
     = ([\<lparr>req_url = ''https://api.hubapi.com/x'', req_method = ''GET'',
          req_headers = [(''Accept'', ''application/json''), (''Authorization'', ''Bearer t'')],
          req_body = None\<rparr>],
        Inr (Envelope ''Error performing request: Unexpected end of JSON input''))
   \<and> makeApiRequest (fetch_always 200 (Inr (JStr ''pong''))) (Some ''t'') ''/x'' [] ''GET'' None
     = ([\<lparr>req_url = ''https://api.hubapi.com/x'', req_method = ''GET'',
          req_headers = [(''Accept'', ''application/json''), (''Authorization'', ''Bearer t'')],
          req_body = None\<rparr>],
        Inr (JStr ''pong''))
   \<and> makeApiRequestWithErrorHandling (fetch_always 200 (Inr (JStr ''pong'')))
        (Some ''t'') ''/x'' [] ''GET'' None
     = ([\<lparr>req_url = ''https://api.hubapi.com/x'', req_method = ''GET'',
          req_headers = [(''Accept'', ''application/json''), (''Authorization'', ''Bearer t'')],
          req_body = None\<rparr>],
        Inr (Envelope ''pong''))"
proof -
  let ?rq = "\<lparr>req_url = ''https://api.hubapi.com/x'', req_method = ''GET'',
          req_headers = [(''Accept'', ''application/json''), (''Authorization'', ''Bearer t'')],
          req_body = None\<rparr>"
  have a: "makeApiRequest (fetch_always 200 (Inl (SyntaxError ''Unexpected end of JSON input'')))
      (Some ''t'') ''/x'' [] ''GET'' None
        = ([?rq], Inl (SyntaxError ''Unexpected end of JSON input''))"
    by (simp add: makeApiRequest_eval fetch_always_def)
  have b: "makeApiRequest (fetch_always 200 (Inr (JStr ''pong''))) (Some ''t'') ''/x'' [] ''GET'' None
     = ([?rq], Inr (JStr ''pong''))"
    by (simp add: makeApiRequest_eval fetch_always_def)
  show ?thesis
    using a b
      wrapper_catches [of "fetch_always 200 (Inl (SyntaxError ''Unexpected end of JSON input''))"
        "Some ''t''" "''/x''" "[]" "''GET''" None "[?rq]"
        "SyntaxError ''Unexpected end of JSON input''" "JNull"]
      wrapper_catches [of "fetch_always 200 (Inr (JStr ''pong''))"
        "Some ''t''" "''/x''" "[]" "''GET''" None "[?rq]" "Error []" "JStr ''pong''"]
    by (simp add: formatResponse_JStr)
qed

text \<open>
  C10. \<^verbatim>\<open>handleEndpoint\<close> returns the result of an inner call that does not
  raise unchanged. In particular the Envelope that
  \<^verbatim>\<open>makeApiRequestWithErrorHandling\<close> produces passes through it as it is, so
  the \<^verbatim>\<open>crm_create_company\<close> handler returns exactly what the inner wrapper
  returned.
\<close>

theorem handleEndpoint_identity:
  "(apiCall () = (reqs, Inr v) \<longrightarrow> handleEndpoint apiCall = (reqs, Inr v))
   \<and> handleEndpoint (\<lambda>_. makeApiRequestWithErrorHandling fetch k e ps m b)
       = makeApiRequestWithErrorHandling fetch k e ps m b
   \<and> crm_create_company fetch k params
       = makeApiRequestWithErrorHandling fetch k ''/crm/v3/objects/companies'' [] ''POST''
           (Some [(''properties'', get_prop params ''properties''),
                  (''associations'', get_prop params ''associations'')])"
  by (simp add: handleEndpoint_Inr handleEndpoint_wrapped crm_create_company_def)

theorem handleEndpoint_identity_witness:
  "handleEndpoint (\<lambda>_. ([], Inr (JNum 7))) = ([], Inr (JNum 7))
   \<and> crm_create_company (fetch_always 404 (Inr JNull)) (Some ''t'') []
       = ([\<lparr>req_url = ''https://api.hubapi.com/crm/v3/objects/companies'',
            req_method = ''POST'',
            req_headers = [(''Accept'', ''application/json''), (''Authorization'', ''Bearer t''),
                           (''Content-Type'', ''application/json'')],
            req_body = Some ''{}''\<rparr>],
          Inr (Envelope ''Error fetching data from HubSpot: Status 404''))"
  using handleEndpoint_identity [of "\<lambda>_. ([], Inr (JNum 7))" "[]" "JNum 7"
      "fetch_always 404 (Inr JNull)" "Some ''t''" "''/x''" "[]" "''GET''" None "[]"]
  by (simp add: makeApiRequestWithErrorHandling_def makeApiRequest_eval fetch_always_def
      decimal_404 formatResponse_JStr get_prop_def)

section \<open>The missing token\<close>

text \<open>
  C4. With an absent or empty token \<^verbatim>\<open>makeApiRequest\<close> raises before any
  request is handed to \<^verbatim>\<open>fetch\<close>; so \<^verbatim>\<open>crm_create_company\<close>, with no
  token in the configuration or with an empty one, issues no request and returns
  an Envelope whose text names the missing
  \<^verbatim>\<open>HUBSPOT_ACCESS_TOKEN\<close>.
\<close>

theorem missing_token:
  "makeApiRequest fetch None e ps m b =
     ([], Inl (Error ''HUBSPOT_ACCESS_TOKEN environment variable is not set''))
   \<and> makeApiRequest fetch (Some []) e ps m b =
     ([], Inl (Error ''HUBSPOT_ACCESS_TOKEN environment variable is not set''))
   \<and> crm_create_company fetch (getConfig None None) params =
     ([], Inr (Envelope
        ''Error performing request: HUBSPOT_ACCESS_TOKEN environment variable is not set''))
   \<and> crm_create_company fetch (Some []) params =
     ([], Inr (Envelope
        ''Error performing request: HUBSPOT_ACCESS_TOKEN environment variable is not set''))"
  by (simp add: makeApiRequest_no_token crm_create_company_def handleEndpoint_def
      makeApiRequestWithErrorHandling_def getConfig_def formatResponse_JStr)

theorem missing_token_witness:
  "fst (crm_create_company (fetch_always 200 (Inr JNull)) (getConfig None None)
          [(''properties'', JObj [(''name'', JStr ''Acme'')])]) = []
   \<and> snd (crm_create_company (fetch_always 200 (Inr JNull)) (getConfig None None)
          [(''properties'', JObj [(''name'', JStr ''Acme'')])])
       = Inr (Envelope
          ''Error performing request: HUBSPOT_ACCESS_TOKEN environment variable is not set'')"
  using missing_token [of "fetch_always 200 (Inr JNull)" "[]" "[]" "[]" None
      "[(''properties'', JObj [(''name'', JStr ''Acme'')])]"]
  by simp

section \<open>The API Client\<close>

text \<open>
  C2. For every response that \<^verbatim>\<open>makeApiRequest\<close> receives for the request it
  issued: a status outside 200 to 299 makes it return (not raise) the string
  \<^verbatim>\<open>Error fetching data from HubSpot: Status <code>\<close> with the status in
  decimal, so \<^verbatim>\<open>Error fetching data from HubSpot: Status 404\<close> for 404; status
  204 makes it return \<^verbatim>\<open>No data returned: Status 204\<close>; on any other success
  status it returns what \<^verbatim>\<open>response.json()\<close> gives, the parsed body.
\<close>

theorem makeApiRequest_status:
  assumes "rq \<in> set (fst (makeApiRequest fetch k e ps m b))"
    and "fetch rq = Inr r"
  shows "snd (makeApiRequest fetch k e ps m b) =
     (if status r < 200 \<or> 299 < status r then
        Inr (JStr (''Error fetching data from HubSpot: Status '' @ decimal (status r)))
      else if status r = 204 then Inr (JStr ''No data returned: Status 204'')
      else json r)
    \<and> (status r = 404 \<longrightarrow> snd (makeApiRequest fetch k e ps m b)
          = Inr (JStr ''Error fetching data from HubSpot: Status 404''))"
proof -
  from makeApiRequest_issued [OF assms(1)] assms(2)
  have "snd (makeApiRequest fetch k e ps m b) = response_result r"
    by auto
  then show ?thesis
    by (auto simp: response_result_def ok_def decimal_204 decimal_404)
qed

theorem makeApiRequest_status_witness:
  "snd (makeApiRequest (fetch_always 404 (Inr JNull)) (Some ''t'')
          ''/crm/v3/objects/companies/1'' [] ''GET'' None)
     = Inr (JStr ''Error fetching data from HubSpot: Status 404'')
   \<and> snd (makeApiRequest (fetch_always 204 (Inl (SyntaxError ''Unexpected end of JSON input'')))
          (Some ''t'') ''/crm/v3/objects/companies/1'' [] ''GET'' None)
     = Inr (JStr ''No data returned: Status 204'')
   \<and> snd (makeApiRequest (fetch_always 200 (Inr (JObj [(''id'', JStr ''1'')]))) (Some ''t'')
          ''/crm/v3/objects/companies/1'' [] ''GET'' None)
     = Inr (JObj [(''id'', JStr ''1'')])"
proof -
  let ?rq = "\<lparr>req_url = ''https://api.hubapi.com/crm/v3/objects/companies/1'',
      req_method = ''GET'',
      req_headers = [(''Accept'', ''application/json''), (''Authorization'', ''Bearer t'')],
      req_body = None\<rparr>"
  have a: "?rq \<in> set (fst (makeApiRequest (fetch_always st js) (Some ''t'')
      ''/crm/v3/objects/companies/1'' [] ''GET'' None))" for st js
    by (simp add: example_request)
  have b: "fetch_always st js ?rq = Inr \<lparr>status = st, json = js\<rparr>" for st js
    by (simp add: fetch_always_def)
  have "snd (makeApiRequest (fetch_always 404 (Inr JNull)) (Some ''t'')
          ''/crm/v3/objects/companies/1'' [] ''GET'' None)
     = Inr (JStr ''Error fetching data from HubSpot: Status 404'')"
    using makeApiRequest_status [OF a b, of 404 "Inr JNull"] by (simp add: decimal_404)
  moreover
  have "snd (makeApiRequest (fetch_always 204 (Inl (SyntaxError ''Unexpected end of JSON input'')))
          (Some ''t'') ''/crm/v3/objects/companies/1'' [] ''GET'' None)
     = Inr (JStr ''No data returned: Status 204'')"
    using makeApiRequest_status [OF a b, of 204
        "Inl (SyntaxError ''Unexpected end of JSON input'')"]
    by simp
  moreover
  have "snd (makeApiRequest (fetch_always 200 (Inr (JObj [(''id'', JStr ''1'')]))) (Some ''t'')
          ''/crm/v3/objects/companies/1'' [] ''GET'' None)
     = Inr (JObj [(''id'', JStr ''1'')])"
    using makeApiRequest_status [OF a b, of 200 "Inr (JObj [(''id'', JStr ''1'')])"] by simp
  ultimately show ?thesis by blast
qed

text \<open>
  C9. Every request that \<^verbatim>\<open>makeApiRequest\<close> issues carries
  \<^verbatim>\<open>Accept: application/json\<close> and \<^verbatim>\<open>Authorization: Bearer <token>\<close>; it
  carries \<^verbatim>\<open>Content-Type: application/json\<close> exactly when a body was passed;
  its payload is the JSON serialization of the body when one was passed, and
  it has no payload otherwise.
\<close>

theorem makeApiRequest_request:
  assumes "rq \<in> set (fst (makeApiRequest fetch (Some key) e ps m b))"
  shows "map_of (req_headers rq) ''Accept'' = Some ''application/json''
     \<and> map_of (req_headers rq) ''Authorization'' = Some (''Bearer '' @ key)
     \<and> map_of (req_headers rq) ''Content-Type''
          = (case b of None \<Rightarrow> None | Some ob \<Rightarrow> Some ''application/json'')
     \<and> req_body rq = (case b of None \<Rightarrow> None | Some ob \<Rightarrow> stringify (JObj ob))
     \<and> (req_body rq = None) = (b = None)"
proof -
  from makeApiRequest_issued [OF assms]
  have "req_headers rq = request_headers key b" and "req_body rq = request_body b"
    by auto
  then show ?thesis
    using request_body_None [of b]
    by (simp add: request_headers_map_of) (simp add: request_body_def)
qed

theorem makeApiRequest_request_witness:
  "\<lparr>req_url = ''https://api.hubapi.com/crm/v3/objects/companies/1'', req_method = ''PATCH'',
     req_headers = [(''Accept'', ''application/json''), (''Authorization'', ''Bearer t''),
                    (''Content-Type'', ''application/json'')],
     req_body = Some ''{\"properties\":{\"name\":\"Acme\"}}''\<rparr>
     \<in> set (fst (makeApiRequest (fetch_always 200 (Inr JNull)) (Some ''t'')
              ''/crm/v3/objects/companies/1'' [] ''PATCH''
              (Some [(''properties'', JObj [(''name'', JStr ''Acme'')])])))
   \<and> stringify (JObj [(''properties'', JObj [(''name'', JStr ''Acme'')])])
       = Some ''{\"properties\":{\"name\":\"Acme\"}}''
   \<and> \<lparr>req_url = ''https://api.hubapi.com/crm/v3/objects/companies/1'', req_method = ''GET'',
       req_headers = [(''Accept'', ''application/json''), (''Authorization'', ''Bearer t'')],
       req_body = None\<rparr>
     \<in> set (fst (makeApiRequest (fetch_always 200 (Inr JNull)) (Some ''t'')
              ''/crm/v3/objects/companies/1'' [] ''GET'' None))"
proof -
  let ?b = "Some [(''properties'', JObj [(''name'', JStr ''Acme'')])]"
  let ?rq = "\<lparr>req_url = ''https://api.hubapi.com/crm/v3/objects/companies/1'',
      req_method = ''PATCH'',
      req_headers = [(''Accept'', ''application/json''), (''Authorization'', ''Bearer t''),
                     (''Content-Type'', ''application/json'')],
      req_body = Some ''{\"properties\":{\"name\":\"Acme\"}}''\<rparr>"
  let ?rq' = "\<lparr>req_url = ''https://api.hubapi.com/crm/v3/objects/companies/1'',
      req_method = ''GET'',
      req_headers = [(''Accept'', ''application/json''), (''Authorization'', ''Bearer t'')],
      req_body = None\<rparr>"
  have a: "?rq \<in> set (fst (makeApiRequest (fetch_always 200 (Inr JNull)) (Some ''t'')
      ''/crm/v3/objects/companies/1'' [] ''PATCH'' ?b))"
    by (simp add: example_request_body)
  have a': "?rq' \<in> set (fst (makeApiRequest (fetch_always 200 (Inr JNull)) (Some ''t'')
      ''/crm/v3/objects/companies/1'' [] ''GET'' None))"
    by (simp add: example_request)
  have "req_body ?rq = stringify (JObj [(''properties'', JObj [(''name'', JStr ''Acme'')])])"
    using makeApiRequest_request [OF a] by simp
  then have "stringify (JObj [(''properties'', JObj [(''name'', JStr ''Acme'')])])
       = Some ''{\"properties\":{\"name\":\"Acme\"}}''"
    by simp
  with a a' show ?thesis by blast
qed

section \<open>The Envelope invariant\<close>

text \<open>
  C1. Every invocation of a registered tool (\<^verbatim>\<open>add\<close>,
  \<^verbatim>\<open>crm_create_company\<close>, \<^verbatim>\<open>crm_update_company\<close>, \<^verbatim>\<open>crm_get_company\<close>,
  \<^verbatim>\<open>crm_search_companies\<close>), whatever the token, the arguments and the
  behaviour of the network (a success, an HTTP error status, a rejected
  \<^verbatim>\<open>fetch\<close>, a body that does not parse), returns and does not raise, and
  what it returns has the shape \<^verbatim>\<open>{content: [{type: "text", text: s}]}\<close> with
  exactly one content element and a string \<open>s\<close>.
\<close>

theorem tool_returns_envelope:
  "(\<exists>reqs v. add a b = (reqs, Inr v) \<and> is_envelope v)
   \<and> (\<exists>reqs v. crm_create_company fetch k params = (reqs, Inr v) \<and> is_envelope v)
   \<and> (\<exists>reqs v. crm_update_company fetch k params = (reqs, Inr v) \<and> is_envelope v)
   \<and> (\<exists>reqs v. crm_get_company fetch k params = (reqs, Inr v) \<and> is_envelope v)
   \<and> (\<exists>reqs v. crm_search_companies fetch k params = (reqs, Inr v) \<and> is_envelope v)"
proof (intro conjI)
  show "\<exists>reqs v. add a b = (reqs, Inr v) \<and> is_envelope v"
    by (simp add: add_def is_envelope_def is_text_item_def)
next
  show "\<exists>reqs v. crm_create_company fetch k params = (reqs, Inr v) \<and> is_envelope v"
    using crm_create_company_Envelope [of fetch k params] is_envelope_Envelope by auto
next
  show "\<exists>reqs v. crm_update_company fetch k params = (reqs, Inr v) \<and> is_envelope v"
    using crm_update_company_Envelope [of fetch k params] is_envelope_Envelope by auto
next
  show "\<exists>reqs v. crm_get_company fetch k params = (reqs, Inr v) \<and> is_envelope v"
    using crm_get_company_Envelope [of fetch k params] is_envelope_Envelope by auto
next
  show "\<exists>reqs v. crm_search_companies fetch k params = (reqs, Inr v) \<and> is_envelope v"
    using crm_search_companies_Envelope [of fetch k params] is_envelope_Envelope by auto
qed

theorem tool_returns_envelope_witness:
  "add 2 3 = ([], Inr (JObj [(''content'', JArr [JObj [(''text'', JStr ''5''), (''type'', JStr ''text'')]])]))
   \<and> is_envelope (JObj [(''content'', JArr [JObj [(''text'', JStr ''5''), (''type'', JStr ''text'')]])])
   \<and> snd (crm_get_company (fetch_fails (TypeError ''fetch failed'')) (Some ''t'')
            [(''companyId'', JStr ''123'')])
       = Inr (Envelope ''Error performing request: fetch failed'')
   \<and> snd (crm_get_company (fetch_fails (TypeError ''fetch failed'')) (Some ''t'')
            [(''companyId'', JStr ''123''), (''properties'', JNum 5)])
       = Inr (Envelope ''params.properties?.join is not a function'')
   \<and> is_envelope (Envelope ''Error performing request: fetch failed'')"
  using tool_returns_envelope [of 2 3 "fetch_fails (TypeError ''fetch failed'')" "Some ''t''"
      "[(''companyId'', JStr ''123'')]"]
  by (simp add: add_def Number_toString_def decimal.simps digit_char_def is_envelope_Envelope
      crm_get_company_def handleEndpoint_def makeApiRequestWithErrorHandling_def
      makeApiRequest_eval fetch_fails_def get_prop_def formatResponse_JStr
      is_envelope_def is_text_item_def)

section \<open>The tools' requests\<close>

text \<open>
  C5, as the claim states it, fails in its last part: an empty array does not
  behave as an absent argument. \<^verbatim>\<open>[].join(",")\<close> is the empty string, which is
  not \<^verbatim>\<open>undefined\<close>, so the parameter is appended with an empty value and the
  URL ends in \<^verbatim>\<open>?properties=\<close>; with the argument absent the URL has no
  query string.
\<close>

theorem crm_get_company_empty_array_counterexample:
  "map req_url (fst (crm_get_company (fetch_always 200 (Inr JNull)) (Some ''t'')
        [(''companyId'', JStr ''123''), (''properties'', JArr [])]))
     = [''https://api.hubapi.com/crm/v3/objects/companies/123?properties='']
   \<and> map req_url (fst (crm_get_company (fetch_always 200 (Inr JNull)) (Some ''t'')
        [(''companyId'', JStr ''123'')]))
     = [''https://api.hubapi.com/crm/v3/objects/companies/123'']
   \<and> fst (crm_get_company (fetch_always 200 (Inr JNull)) (Some ''t'')
        [(''companyId'', JStr ''123''), (''properties'', JArr [])])
     \<noteq> fst (crm_get_company (fetch_always 200 (Inr JNull)) (Some ''t'')
        [(''companyId'', JStr ''123'')])"
  by (simp add: crm_get_company_def handleEndpoint_def makeApiRequestWithErrorHandling_def
      makeApiRequest_eval fetch_always_def get_prop_def urlencode_def urlencode_byte_def)

text \<open>
  C5, amended. With a token configured, \<^verbatim>\<open>crm_get_company\<close> issues exactly one
  request: a \<^verbatim>\<open>GET\<close> to \<^verbatim>\<open>/crm/v3/objects/companies/{companyId}\<close> with no
  body. A \<^verbatim>\<open>properties\<close> or \<^verbatim>\<open>associations\<close> array is joined by commas into
  one query value (company \<^verbatim>\<open>123\<close> with properties \<^verbatim>\<open>name\<close> and
  \<^verbatim>\<open>domain\<close> gives \<^verbatim>\<open>/crm/v3/objects/companies/123?properties=name%2Cdomain\<close>);
  an absent argument leaves its query parameter out, and an empty array gives
  the parameter with an empty value.
\<close>

theorem crm_get_company_request:
  assumes "key \<noteq> []"
    and "get_prop params ''companyId'' = JStr companyId"
    and "get_prop params ''properties'' = optional_strings properties"
    and "get_prop params ''associations'' = optional_strings associations"
  shows "fst (crm_get_company fetch (Some key) params)
     = (let query =
              (case properties of None \<Rightarrow> [] | Some ps \<Rightarrow> [(''properties'', join '','' ps)])
              @ (case associations of None \<Rightarrow> []
                 | Some as \<Rightarrow> [(''associations'', join '','' as)])
        in [\<lparr>req_url = ''https://api.hubapi.com/crm/v3/objects/companies/'' @ companyId
                          @ (if query = [] then [] else ''?'' @ urlencoded query),
              req_method = ''GET'',
              req_headers = [(''Accept'', ''application/json''),
                             (''Authorization'', ''Bearer '' @ key)],
              req_body = None\<rparr>])"
  unfolding crm_get_company_validated [OF assms(2-4)] fst_makeApiRequestWithErrorHandling
    fst_makeApiRequest [OF assms(1) appendParams_joined]
  by (simp add: request_url_def request_headers_def request_body_def urlencoded_Nil_iff Let_def)

theorem crm_get_company_request_witness:
  "get_prop [(''companyId'', JStr ''123''), (''properties'', JArr [JStr ''name'', JStr ''domain''])]
      ''properties'' = optional_strings (Some [''name'', ''domain''])
   \<and> fst (crm_get_company (fetch_always 200 (Inr JNull)) (Some ''t'')
        [(''companyId'', JStr ''123''), (''properties'', JArr [JStr ''name'', JStr ''domain''])])
     = [\<lparr>req_url =
           ''https://api.hubapi.com/crm/v3/objects/companies/123?properties=name%2Cdomain'',
          req_method = ''GET'',
          req_headers = [(''Accept'', ''application/json''), (''Authorization'', ''Bearer t'')],
          req_body = None\<rparr>]
   \<and> get_prop [(''companyId'', JStr ''123''), (''associations'', JArr [])] ''associations''
       = optional_strings (Some [])
   \<and> fst (crm_get_company (fetch_always 200 (Inr JNull)) (Some ''t'')
        [(''companyId'', JStr ''123''), (''associations'', JArr [])])
     = [\<lparr>req_url = ''https://api.hubapi.com/crm/v3/objects/companies/123?associations='',
          req_method = ''GET'',
          req_headers = [(''Accept'', ''application/json''), (''Authorization'', ''Bearer t'')],
          req_body = None\<rparr>]"
proof -
  let ?params = "[(''companyId'', JStr ''123''),
                  (''properties'', JArr [JStr ''name'', JStr ''domain''])]"
  let ?params' = "[(''companyId'', JStr ''123''), (''associations'', JArr [])]"
  have k: "''t'' \<noteq> []" by simp
  have c: "get_prop ?params ''companyId'' = JStr ''123''"
    by (simp add: get_prop_def)
  have p: "get_prop ?params ''properties'' = optional_strings (Some [''name'', ''domain''])"
    by (simp add: get_prop_def optional_strings_def)
  have a: "get_prop ?params ''associations'' = optional_strings None"
    by (simp add: get_prop_def optional_strings_def)
  have c': "get_prop ?params' ''companyId'' = JStr ''123''"
    by (simp add: get_prop_def)
  have p': "get_prop ?params' ''properties'' = optional_strings None"
    by (simp add: get_prop_def optional_strings_def)
  have a': "get_prop ?params' ''associations'' = optional_strings (Some [])"
    by (simp add: get_prop_def optional_strings_def)
  show ?thesis
    using p a' crm_get_company_request [OF k c p a, of "fetch_always 200 (Inr JNull)"]
      crm_get_company_request [OF k c' p' a', of "fetch_always 200 (Inr JNull)"]
    by (simp add: urlencoded_def urlencode_def urlencode_byte_def HEX_digit_def)
qed




text \<open>
  C8. \<^verbatim>\<open>crm_search_companies\<close> with a token issues one \<^verbatim>\<open>POST\<close> to
  \<^verbatim>\<open>/crm/v3/objects/companies/search\<close> whose body is the JSON serialization of
  the argument set \<^verbatim>\<open>{filterGroups, properties, limit, after, sorts}\<close>. Its
  schema admits only filters whose operator is one of the thirteen of the
  enumeration and a limit from 1 to 100. Validation comes before the handler:
  arguments with an operator outside the enumeration, or a limit outside the
  range, issue no request and return an Envelope whose text is the validator's
  message, which names the path of the invalid argument.
\<close>

theorem crm_search_companies_contract:
  "(\<forall>issue. violation (ZObject search_shape) args = Some issue \<longrightarrow>
      call_tool search_shape (crm_search_companies fetch k) args
        = ([], Inr (Envelope (issue_message issue))))
   \<and> (\<not> set (filter_operators (entries args)) \<subseteq> JStr ` set operators \<longrightarrow>
        (\<exists>issue. call_tool search_shape (crm_search_companies fetch k) args
           = ([], Inr (Envelope (issue_message issue)))))
   \<and> ((\<exists>n. get_prop (entries args) ''limit'' = JNum n \<and> (n < 1 \<or> 100 < n)) \<longrightarrow>
        (\<exists>issue. call_tool search_shape (crm_search_companies fetch k) args
           = ([], Inr (Envelope (issue_message issue)))))
   \<and> (violation (ZObject search_shape) args = None \<longrightarrow>
        call_tool search_shape (crm_search_companies fetch k) args
          = crm_search_companies fetch k (entries args))
   \<and> (\<forall>key. key \<noteq> [] \<longrightarrow>
        fst (crm_search_companies fetch (Some key) params)
          = [\<lparr>req_url = ''https://api.hubapi.com/crm/v3/objects/companies/search'',
              req_method = ''POST'',
              req_headers = [(''Accept'', ''application/json''),
                             (''Authorization'', ''Bearer '' @ key),
                             (''Content-Type'', ''application/json'')],
              req_body = stringify (JObj
                [(''filterGroups'', get_prop params ''filterGroups''),
                 (''properties'', get_prop params ''properties''),
                 (''limit'', get_prop params ''limit''),
                 (''after'', get_prop params ''after''),
                 (''sorts'', get_prop params ''sorts'')])\<rparr>])"
proof (intro conjI allI impI)
  fix issue assume "violation (ZObject search_shape) args = Some issue"
  then show "call_tool search_shape (crm_search_companies fetch k) args
        = ([], Inr (Envelope (issue_message issue)))"
    by (rule call_tool_rejects)
next
  assume bad: "\<not> set (filter_operators (entries args)) \<subseteq> JStr ` set operators"
  show "\<exists>issue. call_tool search_shape (crm_search_companies fetch k) args
           = ([], Inr (Envelope (issue_message issue)))"
  proof (cases "violation (ZObject search_shape) args")
    case None
    with violation_ZObject_entries [OF None]
    have "violation (ZObject search_shape) (JObj (entries args)) = None" by simp
    from filter_operators_valid [OF this] bad show ?thesis by simp
  next
    case (Some issue)
    then show ?thesis using call_tool_rejects by blast
  qed
next
  assume bad: "\<exists>n. get_prop (entries args) ''limit'' = JNum n \<and> (n < 1 \<or> 100 < n)"
  show "\<exists>issue. call_tool search_shape (crm_search_companies fetch k) args
           = ([], Inr (Envelope (issue_message issue)))"
  proof (cases "violation (ZObject search_shape) args")
    case None
    with violation_ZObject_entries [OF None]
    have "violation (ZObject search_shape) (JObj (entries args)) = None" by simp
    from limit_valid [OF this] bad show ?thesis by auto
  next
    case (Some issue)
    then show ?thesis using call_tool_rejects by blast
  qed
next
  assume "violation (ZObject search_shape) args = None"
  then show "call_tool search_shape (crm_search_companies fetch k) args
          = crm_search_companies fetch k (entries args)"
    by (rule call_tool_accepts)
next
  fix key :: string assume "key \<noteq> []"
  then show "fst (crm_search_companies fetch (Some key) params)
          = [\<lparr>req_url = ''https://api.hubapi.com/crm/v3/objects/companies/search'',
              req_method = ''POST'',
              req_headers = [(''Accept'', ''application/json''),
                             (''Authorization'', ''Bearer '' @ key),
                             (''Content-Type'', ''application/json'')],
              req_body = stringify (JObj
                [(''filterGroups'', get_prop params ''filterGroups''),
                 (''properties'', get_prop params ''properties''),
                 (''limit'', get_prop params ''limit''),
                 (''after'', get_prop params ''after''),
                 (''sorts'', get_prop params ''sorts'')])\<rparr>]"
    by (rule crm_search_companies_request)
qed


theorem crm_search_companies_contract_witness:
  "violation (ZObject search_shape)
      (JObj [(''filterGroups'', JArr [JObj [(''filters'',
          JArr [JObj [(''propertyName'', JStr ''name''), (''operator'', JStr ''FOO''),
                      (''value'', JStr ''x'')]])]])])
     = Some (Issue [''filterGroups'', ''0'', ''filters'', ''0'', ''operator'']
          ''Invalid enum value. Expected one of EQ, NEQ, LT, LTE, GT, GTE, BETWEEN, IN, NOT_IN, HAS_PROPERTY, NOT_HAS_PROPERTY, CONTAINS_TOKEN, NOT_CONTAINS_TOKEN; received FOO'')
   \<and> call_tool search_shape (crm_search_companies (fetch_always 200 (Inr JNull)) (Some ''t''))
      (JObj [(''filterGroups'', JArr [JObj [(''filters'',
          JArr [JObj [(''propertyName'', JStr ''name''), (''operator'', JStr ''FOO''),
                      (''value'', JStr ''x'')]])]])])
     = ([], Inr (Envelope
          ''filterGroups.0.filters.0.operator: Invalid enum value. Expected one of EQ, NEQ, LT, LTE, GT, GTE, BETWEEN, IN, NOT_IN, HAS_PROPERTY, NOT_HAS_PROPERTY, CONTAINS_TOKEN, NOT_CONTAINS_TOKEN; received FOO''))
   \<and> violation (ZObject search_shape)
      (JObj [(''filterGroups'', JArr [JObj [(''filters'',
          JArr [JObj [(''propertyName'', JStr ''name''), (''operator'', JStr ''EQ''),
                      (''value'', JStr ''x'')]])]]), (''limit'', JNum 10)])
     = None
   \<and> fst (call_tool search_shape (crm_search_companies (fetch_always 200 (Inr JNull)) (Some ''t''))
      (JObj [(''filterGroups'', JArr [JObj [(''filters'',
          JArr [JObj [(''propertyName'', JStr ''name''), (''operator'', JStr ''EQ''),
                      (''value'', JStr ''x'')]])]]), (''limit'', JNum 10)]))
     = [\<lparr>req_url = ''https://api.hubapi.com/crm/v3/objects/companies/search'',
         req_method = ''POST'',
         req_headers = [(''Accept'', ''application/json''), (''Authorization'', ''Bearer t''),
                        (''Content-Type'', ''application/json'')],
         req_body = Some
           ''{\"filterGroups\":[{\"filters\":[{\"propertyName\":\"name\",\"operator\":\"EQ\",\"value\":\"x\"}]}],\"limit\":10}''\<rparr>]"
proof -
  let ?bad = "JObj [(''filterGroups'', JArr [JObj [(''filters'',
          JArr [JObj [(''propertyName'', JStr ''name''), (''operator'', JStr ''FOO''),
                      (''value'', JStr ''x'')]])]])]"
  let ?good = "[(''filterGroups'', JArr [JObj [(''filters'',
          JArr [JObj [(''propertyName'', JStr ''name''), (''operator'', JStr ''EQ''),
                      (''value'', JStr ''x'')]])]]), (''limit'', JNum 10)]"
  have bad: "violation (ZObject search_shape) ?bad
     = Some (Issue [''filterGroups'', ''0'', ''filters'', ''0'', ''operator'']
          ''Invalid enum value. Expected one of EQ, NEQ, LT, LTE, GT, GTE, BETWEEN, IN, NOT_IN, HAS_PROPERTY, NOT_HAS_PROPERTY, CONTAINS_TOKEN, NOT_CONTAINS_TOKEN; received FOO'')"
    by (simp add: search_shape_def operators_def under_def get_prop_def decimal.simps
        digit_char_def)
  have good: "violation (ZObject search_shape) (JObj ?good) = None"
    by (simp add: search_shape_def operators_def under_def get_prop_def decimal.simps
        digit_char_def)
  have body: "stringify (JObj
                [(''filterGroups'', get_prop ?good ''filterGroups''),
                 (''properties'', get_prop ?good ''properties''),
                 (''limit'', get_prop ?good ''limit''),
                 (''after'', get_prop ?good ''after''),
                 (''sorts'', get_prop ?good ''sorts'')])
     = Some ''{\"filterGroups\":[{\"filters\":[{\"propertyName\":\"name\",\"operator\":\"EQ\",\"value\":\"x\"}]}],\"limit\":10}''"
    by (simp add: get_prop_def quoteJSON_def quote_char_def Number_toString_def decimal.simps
        digit_char_def)
  have t: "''t'' \<noteq> []" by simp
  from crm_search_companies_contract [of ?bad "fetch_always 200 (Inr JNull)" "Some ''t''" ?good]
    bad
  have 1: "call_tool search_shape (crm_search_companies (fetch_always 200 (Inr JNull)) (Some ''t''))
      ?bad = ([], Inr (Envelope (issue_message
        (Issue [''filterGroups'', ''0'', ''filters'', ''0'', ''operator'']
          ''Invalid enum value. Expected one of EQ, NEQ, LT, LTE, GT, GTE, BETWEEN, IN, NOT_IN, HAS_PROPERTY, NOT_HAS_PROPERTY, CONTAINS_TOKEN, NOT_CONTAINS_TOKEN; received FOO''))))"
    by blast
  from crm_search_companies_contract [of "JObj ?good" "fetch_always 200 (Inr JNull)" "Some ''t''"
      ?good] good t
  have 2: "call_tool search_shape (crm_search_companies (fetch_always 200 (Inr JNull)) (Some ''t''))
      (JObj ?good) = crm_search_companies (fetch_always 200 (Inr JNull)) (Some ''t'') ?good"
    and 3: "fst (crm_search_companies (fetch_always 200 (Inr JNull)) (Some ''t'') ?good)
          = [\<lparr>req_url = ''https://api.hubapi.com/crm/v3/objects/companies/search'',
              req_method = ''POST'',
              req_headers = [(''Accept'', ''application/json''),
                             (''Authorization'', ''Bearer '' @ ''t''),
                             (''Content-Type'', ''application/json'')],
              req_body = stringify (JObj
                [(''filterGroups'', get_prop ?good ''filterGroups''),
                 (''properties'', get_prop ?good ''properties''),
                 (''limit'', get_prop ?good ''limit''),
                 (''after'', get_prop ?good ''after''),
                 (''sorts'', get_prop ?good ''sorts'')])\<rparr>]"
    by simp_all
  have 4: "issue_message (Issue [''filterGroups'', ''0'', ''filters'', ''0'', ''operator'']
          ''Invalid enum value. Expected one of EQ, NEQ, LT, LTE, GT, GTE, BETWEEN, IN, NOT_IN, HAS_PROPERTY, NOT_HAS_PROPERTY, CONTAINS_TOKEN, NOT_CONTAINS_TOKEN; received FOO'')
     = ''filterGroups.0.filters.0.operator: Invalid enum value. Expected one of EQ, NEQ, LT, LTE, GT, GTE, BETWEEN, IN, NOT_IN, HAS_PROPERTY, NOT_HAS_PROPERTY, CONTAINS_TOKEN, NOT_CONTAINS_TOKEN; received FOO''"
    by (simp add: issue_message_def)
  show ?thesis
    unfolding bad good 1 2 3 4 body by simp
qed

end
